theory Spec2Isabelle
  imports Complex_Main "HOL-Library.Word"
begin

section \<open>Platinum RTD conversion routines (platinum\_rtd\_sensor.c)\<close>

subsection \<open>The C type double\<close>

text \<open>
  A \<open>double\<close> is a finite value, one of the two infinities, or NaN. The special values
  follow IEEE 754: NaN is absorbing and compares false with everything, a non-zero finite
  value divided by zero is an infinity, \<open>0/0\<close>, \<open>inf - inf\<close>, \<open>0 * inf\<close> and
  \<open>inf / inf\<close> are NaN. The operations \<open>+\<close>, \<open>-\<close>, \<open>*\<close>, \<open>/\<close> on finite values
  are exact: rounding of computed values, overflow to an infinity and the sign of zero are
  not part of them.

  The two functions are first modelled with these exact operations, the coefficients and
  the tolerance at their decimal values. The limits of the resistance bands, which decide
  between rejecting and iterating, are taken at the exact values of their binary64
  literals. The loop is then modelled a second time with every literal and operation
  rounded to binary64 (subsection on binary64 rounding), for the property that depends on
  rounding.
\<close>

datatype double = Fin real | PInf | NInf | NaN

instantiation double :: uminus
begin

fun uminus_double :: "double \<Rightarrow> double" where
  "uminus_double (Fin a) = Fin (- a)"
| "uminus_double PInf = NInf"
| "uminus_double NInf = PInf"
| "uminus_double NaN = NaN"

instance ..

end

instantiation double :: plus
begin

fun plus_double :: "double \<Rightarrow> double \<Rightarrow> double" where
  "plus_double NaN y = NaN"
| "plus_double x NaN = NaN"
| "plus_double (Fin a) (Fin b) = Fin (a + b)"
| "plus_double (Fin a) y = y"
| "plus_double x (Fin b) = x"
| "plus_double PInf PInf = PInf"
| "plus_double NInf NInf = NInf"
| "plus_double PInf NInf = NaN"
| "plus_double NInf PInf = NaN"

instance ..

end

instantiation double :: minus
begin

definition minus_double :: "double \<Rightarrow> double \<Rightarrow> double" where
  "minus_double x y = x + (- y)"

instance ..

end

text \<open>The sign of a value that is not NaN: \<open>-1\<close>, \<open>0\<close> or \<open>1\<close>.\<close>

fun dsign :: "double \<Rightarrow> real" where
  "dsign (Fin a) = sgn a"
| "dsign PInf = 1"
| "dsign NInf = - 1"
| "dsign NaN = 0"

definition inf_of_sign :: "real \<Rightarrow> double" where
  "inf_of_sign s = (if s = 0 then NaN else if 0 < s then PInf else NInf)"

instantiation double :: times
begin

fun times_double :: "double \<Rightarrow> double \<Rightarrow> double" where
  "times_double NaN y = NaN"
| "times_double x NaN = NaN"
| "times_double (Fin a) (Fin b) = Fin (a * b)"
| "times_double x y = inf_of_sign (dsign x * dsign y)"

instance ..

end

instantiation double :: inverse
begin

fun divide_double :: "double \<Rightarrow> double \<Rightarrow> double" where
  "divide_double NaN y = NaN"
| "divide_double x NaN = NaN"
| "divide_double (Fin a) (Fin b) = (if b = 0 then inf_of_sign (sgn a) else Fin (a / b))"
| "divide_double (Fin a) y = Fin 0"
| "divide_double x (Fin b) = inf_of_sign (dsign x * (if b < 0 then - 1 else 1))"
| "divide_double x y = NaN"

definition inverse_double :: "double \<Rightarrow> double" where
  "inverse_double x = divide (Fin 1) x"

instance ..

end

instantiation double :: abs
begin

fun abs_double :: "double \<Rightarrow> double" where
  "abs_double (Fin a) = Fin \<bar>a\<bar>"
| "abs_double PInf = PInf"
| "abs_double NInf = PInf"
| "abs_double NaN = NaN"

instance ..

end

instantiation double :: ord
begin

fun less_double :: "double \<Rightarrow> double \<Rightarrow> bool" where
  "less_double NaN y = False"
| "less_double x NaN = False"
| "less_double (Fin a) (Fin b) = (a < b)"
| "less_double x PInf = (x \<noteq> PInf)"
| "less_double NInf y = (y \<noteq> NInf)"
| "less_double x y = False"

fun less_eq_double :: "double \<Rightarrow> double \<Rightarrow> bool" where
  "less_eq_double NaN y = False"
| "less_eq_double x NaN = False"
| "less_eq_double (Fin a) (Fin b) = (a \<le> b)"
| "less_eq_double x PInf = True"
| "less_eq_double NInf y = True"
| "less_eq_double x y = False"

instance ..

end

text \<open>The C test \<open>!x\<close> on a double: true exactly when \<open>x\<close> compares equal to zero.\<close>

definition is_zero :: "double \<Rightarrow> bool" where
  "is_zero x = (x = Fin 0)"

subsection \<open>Constants of platinum\_rtd\_sensor.h\<close>

definition RTD_A_COEFFICIENT :: double where
  "RTD_A_COEFFICIENT = Fin 0.003908302087"

definition RTD_B_COEFFICIENT :: double where
  "RTD_B_COEFFICIENT = Fin (- 0.0000005775)"

definition RTD_C_COEFFICIENT :: double where
  "RTD_C_COEFFICIENT = Fin (- 0.00000000000418301)"

definition RTD_SENSOR_PT50 :: "16 word" where "RTD_SENSOR_PT50 = 50"
definition RTD_SENSOR_PT100 :: "16 word" where "RTD_SENSOR_PT100 = 100"
definition RTD_SENSOR_PT200 :: "16 word" where "RTD_SENSOR_PT200 = 200"
definition RTD_SENSOR_PT500 :: "16 word" where "RTD_SENSOR_PT500 = 500"
definition RTD_SENSOR_PT1000 :: "16 word" where "RTD_SENSOR_PT1000 = 1000"

definition RTD_CONVERSION_FAILED :: double where
  "RTD_CONVERSION_FAILED = Fin (- 1000000)"

subsection \<open>RTD\_CalculateResistance\<close>

text \<open>
  The \<open>switch\<close> of \<open>RTD_CalculateResistance\<close>: the value of \<open>resistance_at_zero\<close> after
  it, \<open>0.0\<close> (the initial value) in the default case.
\<close>

definition resistance_at_zero_of :: "16 word \<Rightarrow> double" where
  "resistance_at_zero_of sensor_type =
     (if sensor_type = RTD_SENSOR_PT50 then Fin 50
      else if sensor_type = RTD_SENSOR_PT100 then Fin 100
      else if sensor_type = RTD_SENSOR_PT200 then Fin 200
      else if sensor_type = RTD_SENSOR_PT500 then Fin 500
      else if sensor_type = RTD_SENSOR_PT1000 then Fin 1000
      else Fin 0)"

definition RTD_CalculateResistance :: "16 word \<Rightarrow> double \<Rightarrow> double" where
  "RTD_CalculateResistance sensor_type temperature =
     (if temperature < Fin (- 200.5) \<or> temperature > Fin 850.5 then RTD_CONVERSION_FAILED
      else
        let resistance_at_zero = resistance_at_zero_of sensor_type in
        if is_zero resistance_at_zero then RTD_CONVERSION_FAILED
        else
          let temp_squared = temperature * temperature in
          if temperature \<ge> Fin 0 then
            resistance_at_zero *
              (Fin 1 + RTD_A_COEFFICIENT * temperature + RTD_B_COEFFICIENT * temp_squared)
          else
            let temp_cubed = temp_squared * temperature in
            resistance_at_zero *
              (Fin 1 + RTD_A_COEFFICIENT * temperature + RTD_B_COEFFICIENT * temp_squared
                 + RTD_C_COEFFICIENT * (temperature - Fin 100) * temp_cubed))"

subsection \<open>RTD\_CalculateTemperature\<close>

text \<open>
  The \<open>switch\<close> of \<open>RTD_CalculateTemperature\<close>: the values of \<open>resistance_at_zero\<close>
  and \<open>temperature\<close> after it. \<open>temperature\<close> starts as \<open>0.0\<close> and becomes
  \<open>RTD_CONVERSION_FAILED\<close> when the class is unknown or the resistance is outside the
  band of the class.
\<close>

text \<open>
  The band limits \<open>9.2\<close>, \<open>195.3\<close>, \<open>18.3\<close>, \<open>390.6\<close> and \<open>781.3\<close> are not
  binary64 numbers; the comparisons of the source are with the nearest binary64 number,
  given here exactly. The other five limits (\<open>36.5\<close>, \<open>91.5\<close>, \<open>1953.0\<close>,
  \<open>182.5\<close>, \<open>3906.5\<close>) are binary64 numbers themselves.
\<close>

definition binary64_9_2 :: real where
  "binary64_9_2 = 2589569785738035 / 2 ^ 48"

definition binary64_195_3 :: real where
  "binary64_195_3 = 3435753934474445 / 2 ^ 44"

definition binary64_18_3 :: real where
  "binary64_18_3 = 5150992073805005 / 2 ^ 48"

definition binary64_390_6 :: real where
  "binary64_390_6 = 3435753934474445 / 2 ^ 43"

definition binary64_781_3 :: real where
  "binary64_781_3 = 3436193739125555 / 2 ^ 42"

definition band_check :: "double \<Rightarrow> double \<Rightarrow> double \<Rightarrow> double" where
  "band_check resistance lo hi =
     (if resistance < lo \<or> resistance > hi then RTD_CONVERSION_FAILED else Fin 0)"

definition validate_resistance :: "16 word \<Rightarrow> double \<Rightarrow> double \<times> double" where
  "validate_resistance sensor_type resistance =
     (if sensor_type = RTD_SENSOR_PT50 then
        (Fin 50, band_check resistance (Fin binary64_9_2) (Fin binary64_195_3))
      else if sensor_type = RTD_SENSOR_PT100 then
        (Fin 100, band_check resistance (Fin binary64_18_3) (Fin binary64_390_6))
      else if sensor_type = RTD_SENSOR_PT200 then
        (Fin 200, band_check resistance (Fin 36.5) (Fin binary64_781_3))
      else if sensor_type = RTD_SENSOR_PT500 then
        (Fin 500, band_check resistance (Fin 91.5) (Fin 1953.0))
      else if sensor_type = RTD_SENSOR_PT1000 then
        (Fin 1000, band_check resistance (Fin 182.5) (Fin 3906.5))
      else (Fin 0, RTD_CONVERSION_FAILED))"

definition max_iterations :: nat where
  "max_iterations = 1000"

definition tolerance :: double where
  "tolerance = Fin 0.00000001"

text \<open>The two assignments at the head of the loop body, in each sign branch.\<close>

definition function_value :: "double \<Rightarrow> double \<Rightarrow> double \<Rightarrow> double" where
  "function_value resistance_at_zero resistance temperature_estimate =
     (if temperature_estimate \<ge> Fin 0 then
        resistance_at_zero *
          (Fin 1 + RTD_A_COEFFICIENT * temperature_estimate
             + RTD_B_COEFFICIENT * temperature_estimate * temperature_estimate)
          - resistance
      else
        let temp_squared = temperature_estimate * temperature_estimate;
            temp_cubed = temp_squared * temperature_estimate
        in resistance_at_zero *
             (Fin 1 + RTD_A_COEFFICIENT * temperature_estimate
                + RTD_B_COEFFICIENT * temp_squared
                + RTD_C_COEFFICIENT * (temperature_estimate - Fin 100) * temp_cubed)
             - resistance)"

definition derivative_value :: "double \<Rightarrow> double \<Rightarrow> double" where
  "derivative_value resistance_at_zero temperature_estimate =
     (if temperature_estimate \<ge> Fin 0 then
        resistance_at_zero *
          (RTD_A_COEFFICIENT + Fin 2 * RTD_B_COEFFICIENT * temperature_estimate)
      else
        let temp_squared = temperature_estimate * temperature_estimate
        in resistance_at_zero *
             (RTD_A_COEFFICIENT + Fin 2 * RTD_B_COEFFICIENT * temperature_estimate
                + Fin 3 * RTD_C_COEFFICIENT * temp_squared
                - Fin 200 * RTD_C_COEFFICIENT * temperature_estimate
                + Fin 300 * RTD_C_COEFFICIENT * temp_squared))"

definition new_temperature_estimate :: "double \<Rightarrow> double \<Rightarrow> double \<Rightarrow> double" where
  "new_temperature_estimate resistance_at_zero resistance temperature_estimate =
     temperature_estimate
       - function_value resistance_at_zero resistance temperature_estimate
           / derivative_value resistance_at_zero temperature_estimate"

text \<open>
  The \<open>while\<close> loop. \<open>temperature\<close> is assigned only on the \<open>break\<close> path; when
  \<open>iteration\<close> reaches \<open>max_iterations\<close> the loop ends with \<open>temperature\<close> as it was
  on entry. The counter stays below \<open>2^16\<close>, so it is a natural number here.
\<close>

function newton_loop :: "double \<Rightarrow> double \<Rightarrow> double \<Rightarrow> nat \<Rightarrow> double \<Rightarrow> double" where
  "newton_loop resistance_at_zero resistance temperature_estimate iteration temperature =
     (if iteration < max_iterations then
        let new_estimate =
              new_temperature_estimate resistance_at_zero resistance temperature_estimate
        in if \<bar>new_estimate - temperature_estimate\<bar> < tolerance then new_estimate
           else newton_loop resistance_at_zero resistance new_estimate (iteration + 1)
                  temperature
      else temperature)"
  by pat_completeness auto
termination
  by (relation "measure (\<lambda>(r0, r, te, i, t). max_iterations - i)") auto

declare newton_loop.simps [simp del]

definition RTD_CalculateTemperature :: "16 word \<Rightarrow> double \<Rightarrow> double \<Rightarrow> double" where
  "RTD_CalculateTemperature sensor_type resistance initial_temperature_estimate =
     (let (resistance_at_zero, temperature) = validate_resistance sensor_type resistance in
      if is_zero temperature then
        newton_loop resistance_at_zero resistance initial_temperature_estimate 0 temperature
      else temperature)"

subsection \<open>The loop body on finite values\<close>

text \<open>
  On finite arguments the two assignments of the loop body compute
  \<open>resistance_at_zero * cvd_poly T - resistance\<close> and \<open>resistance_at_zero * cvd_slope T\<close>,
  where \<open>cvd_poly\<close> and \<open>cvd_slope\<close> are the bracketed expressions of the source as
  functions on the reals (lemmas \<open>function_value_Fin\<close> and \<open>derivative_value_Fin\<close>).
\<close>

definition cvd_poly :: "real \<Rightarrow> real" where
  "cvd_poly x =
     (if 0 \<le> x then 1 + 0.003908302087 * x + (- 0.0000005775) * x * x
      else 1 + 0.003908302087 * x + (- 0.0000005775) * (x * x)
             + (- 0.00000000000418301) * (x - 100) * (x * x * x))"

definition cvd_slope :: "real \<Rightarrow> real" where
  "cvd_slope x =
     (if 0 \<le> x then 0.003908302087 + 2 * (- 0.0000005775) * x
      else 0.003908302087 + 2 * (- 0.0000005775) * x
             + 3 * (- 0.00000000000418301) * (x * x)
             - 200 * (- 0.00000000000418301) * x
             + 300 * (- 0.00000000000418301) * (x * x))"

subsection \<open>Binary64 rounding\<close>

text \<open>
  Whether \<open>derivative_value\<close> can be exactly zero is decided by rounding: in exact
  arithmetic \<open>A + 2*B*T\<close> vanishes at no binary64 number \<open>T\<close>. The definitions of this
  subsection are the loop of \<open>RTD_CalculateTemperature\<close> once more, with every literal
  and the result of every arithmetic operation rounded to binary64, each operation on its
  own (no fused multiply-add).

  \<open>binary64_round\<close> is IEEE 754 rounding to nearest, ties to even, for the format with a
  53-bit significand: the result is an integer multiple of the quantum
  \<open>2 powi binary64_quantum x\<close>, which is \<open>2 powi (e - 52)\<close> for
  \<open>2 powi e \<le> \<bar>x\<bar> < 2 powi (e + 1)\<close> and \<open>2 powi (- 1074)\<close> in the subnormal range;
  a result of magnitude \<open>2 ^ 1024\<close> or more overflows to an infinity.
\<close>

definition round_ties_even :: "real \<Rightarrow> int" where
  "round_ties_even x =
     (let n = \<lfloor>x\<rfloor>; r = x - of_int n
      in if r < 1 / 2 then n else if 1 / 2 < r then n + 1 else if even n then n else n + 1)"

definition binary64_quantum :: "real \<Rightarrow> int" where
  "binary64_quantum x = max (\<lfloor>log 2 \<bar>x\<bar>\<rfloor> - 52) (- 1074)"

definition binary64_round :: "real \<Rightarrow> double" where
  "binary64_round x =
     (if x = 0 then Fin 0
      else
        let q = binary64_quantum x;
            y = of_int (round_ties_even (x / 2 powi q)) * 2 powi q
        in if 2 ^ 1024 \<le> \<bar>y\<bar> then (if 0 < x then PInf else NInf) else Fin y)"

fun fl :: "double \<Rightarrow> double" where
  "fl (Fin x) = binary64_round x"
| "fl PInf = PInf"
| "fl NInf = NInf"
| "fl NaN = NaN"

text \<open>The four arithmetic operations of the source on doubles.\<close>

definition add64 :: "double \<Rightarrow> double \<Rightarrow> double" where
  "add64 x y = fl (x + y)"

definition sub64 :: "double \<Rightarrow> double \<Rightarrow> double" where
  "sub64 x y = fl (x - y)"

definition mul64 :: "double \<Rightarrow> double \<Rightarrow> double" where
  "mul64 x y = fl (x * y)"

definition div64 :: "double \<Rightarrow> double \<Rightarrow> double" where
  "div64 x y = fl (x / y)"










text \<open>The sensor classes the two \<open>switch\<close> statements know.\<close>

definition recognized :: "16 word \<Rightarrow> bool" where
  "recognized sensor_type \<longleftrightarrow>
     sensor_type \<in> {RTD_SENSOR_PT50, RTD_SENSOR_PT100, RTD_SENSOR_PT200, RTD_SENSOR_PT500,
       RTD_SENSOR_PT1000}"

section \<open>Properties\<close>

subsection \<open>Basic facts about the two switches\<close>

lemmas sensor_defs = RTD_SENSOR_PT50_def RTD_SENSOR_PT100_def RTD_SENSOR_PT200_def
  RTD_SENSOR_PT500_def RTD_SENSOR_PT1000_def

lemmas coefficient_defs = RTD_A_COEFFICIENT_def RTD_B_COEFFICIENT_def RTD_C_COEFFICIENT_def

lemmas band_literal_defs = binary64_9_2_def binary64_195_3_def binary64_18_3_def
  binary64_390_6_def binary64_781_3_def

lemma band_literal_rounding:
  "binary64_9_2 < 9.2" "9.2 - binary64_9_2 < 1 / 2 ^ 50"
  "195.3 < binary64_195_3" "binary64_195_3 - 195.3 < 1 / 2 ^ 46"
  "18.3 < binary64_18_3" "binary64_18_3 - 18.3 < 1 / 2 ^ 49"
  "390.6 < binary64_390_6" "binary64_390_6 - 390.6 < 1 / 2 ^ 45"
  "binary64_781_3 < 781.3" "781.3 - binary64_781_3 < 1 / 2 ^ 44"
  by (simp_all add: band_literal_defs)

lemma resistance_at_zero_of_cases:
  "(sensor_type, R0) \<in> {(RTD_SENSOR_PT50, 50), (RTD_SENSOR_PT100, 100), (RTD_SENSOR_PT200, 200),
       (RTD_SENSOR_PT500, 500), (RTD_SENSOR_PT1000, 1000)} \<Longrightarrow>
   resistance_at_zero_of sensor_type = Fin R0 \<and> 0 < R0"
  by (auto simp: resistance_at_zero_of_def sensor_defs)

lemma recognized_cases:
  "recognized sensor_type \<Longrightarrow>
     sensor_type = RTD_SENSOR_PT50 \<or> sensor_type = RTD_SENSOR_PT100 \<or>
     sensor_type = RTD_SENSOR_PT200 \<or> sensor_type = RTD_SENSOR_PT500 \<or>
     sensor_type = RTD_SENSOR_PT1000"
  by (simp add: recognized_def)

lemma validate_resistance_snd:
  "(sensor_type, lo, hi) \<in> {(RTD_SENSOR_PT50, binary64_9_2, binary64_195_3),
      (RTD_SENSOR_PT100, binary64_18_3, binary64_390_6),
      (RTD_SENSOR_PT200, 36.5, binary64_781_3),
      (RTD_SENSOR_PT500, 91.5, 1953.0), (RTD_SENSOR_PT1000, 182.5, 3906.5)} \<Longrightarrow>
   snd (validate_resistance sensor_type resistance) = band_check resistance (Fin lo) (Fin hi)"
  unfolding validate_resistance_def sensor_defs
  by (elim insertE emptyE Pair_inject; hypsubst; simp)

lemma validate_resistance_fst:
  "(sensor_type, R0) \<in> {(RTD_SENSOR_PT50, 50), (RTD_SENSOR_PT100, 100),
       (RTD_SENSOR_PT200, 200), (RTD_SENSOR_PT500, 500), (RTD_SENSOR_PT1000, 1000)} \<Longrightarrow>
   fst (validate_resistance sensor_type resistance) = Fin R0"
  unfolding validate_resistance_def sensor_defs
  by (elim insertE emptyE Pair_inject; hypsubst; simp)

lemma not_is_zero_failed: "\<not> is_zero RTD_CONVERSION_FAILED"
  by (simp add: is_zero_def RTD_CONVERSION_FAILED_def)

lemma NaN_absorbing [simp]:
  "x + NaN = NaN" "NaN + x = NaN" "x - NaN = NaN" "NaN - x = NaN"
  "x * NaN = NaN" "NaN * x = NaN" "x / NaN = NaN" "NaN / x = NaN"
  by (cases x; simp add: minus_double_def)+

lemma function_value_Fin:
  "function_value (Fin r0) (Fin R) (Fin x) = Fin (r0 * cvd_poly x - R)"
  by (simp add: function_value_def cvd_poly_def coefficient_defs minus_double_def Let_def)

lemma derivative_value_Fin:
  "derivative_value (Fin r0) (Fin x) = Fin (r0 * cvd_slope x)"
  by (simp add: derivative_value_def cvd_slope_def coefficient_defs minus_double_def Let_def)

lemma new_temperature_estimate_Fin:
  "r0 * cvd_slope x \<noteq> 0 \<Longrightarrow>
   new_temperature_estimate (Fin r0) (Fin R) (Fin x)
     = Fin (x - (r0 * cvd_poly x - R) / (r0 * cvd_slope x))"
  by (simp add: new_temperature_estimate_def function_value_Fin derivative_value_Fin
      minus_double_def)

lemma new_temperature_estimate_NaN [simp]:
  "new_temperature_estimate r0 R NaN = NaN"
  by (simp add: new_temperature_estimate_def minus_double_def)

lemma newton_loop_NaN:
  "newton_loop r0 R NaN iteration temperature = temperature"
proof (induction "max_iterations - iteration" arbitrary: iteration)
  case 0
  then show ?case by (subst newton_loop.simps) simp
next
  case (Suc n)
  then have "n = max_iterations - (iteration + 1)" by simp
  from Suc.hyps(1) [OF this] show ?case
    by (subst newton_loop.simps) (simp add: minus_double_def tolerance_def)
qed

lemma validate_PT100_100:
  "validate_resistance RTD_SENSOR_PT100 (Fin 100) = (Fin 100, Fin 0)"
  by (simp add: validate_resistance_def sensor_defs band_check_def band_literal_defs)

lemma band_check_accepts:
  "is_zero (band_check resistance lo hi) \<longleftrightarrow> \<not> (resistance < lo \<or> resistance > hi)"
  using not_is_zero_failed by (simp add: band_check_def is_zero_def)

lemma accepted_resistance:
  assumes "recognized sensor_type"
    and "is_zero (snd (validate_resistance sensor_type resistance))"
  shows "(\<exists>r0. fst (validate_resistance sensor_type resistance) = Fin r0 \<and> 0 < r0)
         \<and> (resistance = NaN \<or> (\<exists>Rv. resistance = Fin Rv \<and> 0 \<le> Rv))"
  using recognized_cases [OF assms(1)] assms(2)
  by (elim disjE; cases resistance;
      simp add: validate_resistance_def sensor_defs band_check_def is_zero_def
        band_literal_defs RTD_CONVERSION_FAILED_def split: if_splits)

subsection \<open>The forward converter\<close>

text \<open>
  Claim C1. For each of the five sensor classes, with reference resistance \<open>R0\<close> = 50, 100,
  200, 500, 1000, and every finite temperature \<open>T\<close> with \<open>-200.5 \<le> T \<le> 850.5\<close>,
  \<open>RTD_CalculateResistance\<close> returns \<open>R0 * (1 + A*T + B*T\<^sup>2)\<close> when \<open>T \<ge> 0\<close> and
  \<open>R0 * (1 + A*T + B*T\<^sup>2 + C*(T - 100)*T\<^sup>3)\<close> when \<open>T < 0\<close>, with
  \<open>A = 3.908302087e-3\<close>, \<open>B = -5.775e-7\<close>, \<open>C = -4.18301e-12\<close>.
\<close>

theorem RTD_CalculateResistance_formula:
  assumes cls: "(sensor_type, R0) \<in> {(RTD_SENSOR_PT50, 50), (RTD_SENSOR_PT100, 100),
       (RTD_SENSOR_PT200, 200), (RTD_SENSOR_PT500, 500), (RTD_SENSOR_PT1000, 1000)}"
    and lo: "- 200.5 \<le> T" and hi: "T \<le> 850.5"
  shows "RTD_CalculateResistance sensor_type (Fin T) =
     (if 0 \<le> T then Fin (R0 * (1 + 0.003908302087 * T + (- 0.0000005775) * T\<^sup>2))
      else Fin (R0 * (1 + 0.003908302087 * T + (- 0.0000005775) * T\<^sup>2
                  + (- 0.00000000000418301) * (T - 100) * T ^ 3)))"
proof -
  from resistance_at_zero_of_cases [OF cls]
  have r0: "resistance_at_zero_of sensor_type = Fin R0" and pos: "R0 \<noteq> 0" by auto
  show ?thesis using lo hi pos
    by (simp add: RTD_CalculateResistance_def r0 is_zero_def coefficient_defs minus_double_def
        power2_eq_square power3_eq_cube Let_def)
qed

theorem RTD_CalculateResistance_formula_witness:
  "(- 200.5 :: real) \<le> - 200 \<and> (438 :: real) \<le> 850.5
   \<and> RTD_CalculateResistance RTD_SENSOR_PT100 (Fin (- 200)) = Fin (926001793 / 50000000)
   \<and> RTD_CalculateResistance RTD_SENSOR_PT500 (Fin 438) = Fin (1300523202053 / 1000000000)"
  using RTD_CalculateResistance_formula [of RTD_SENSOR_PT100 100 "- 200"]
    RTD_CalculateResistance_formula [of RTD_SENSOR_PT500 500 438]
  by (simp add: sensor_defs)

text \<open>
  Claim C7. \<open>RTD_CalculateResistance\<close> returns \<open>RTD_CONVERSION_FAILED\<close> for every
  temperature below \<open>-200.5\<close> or above \<open>850.5\<close> (whatever the class; the first test of the
  function decides, before the class and the polynomial are looked at), and at the two
  boundary temperatures \<open>-200.5\<close> and \<open>850.5\<close> a recognized class gives a result that
  is not \<open>RTD_CONVERSION_FAILED\<close>.
\<close>

theorem RTD_CalculateResistance_range_check:
  "(temperature < Fin (- 200.5) \<or> temperature > Fin 850.5 \<longrightarrow>
      RTD_CalculateResistance sensor_type temperature = RTD_CONVERSION_FAILED)
   \<and> (recognized sensor_type \<longrightarrow>
      RTD_CalculateResistance sensor_type (Fin (- 200.5)) \<noteq> RTD_CONVERSION_FAILED \<and>
      RTD_CalculateResistance sensor_type (Fin 850.5) \<noteq> RTD_CONVERSION_FAILED)"
proof (intro conjI impI)
  assume "temperature < Fin (- 200.5) \<or> temperature > Fin 850.5"
  then show "RTD_CalculateResistance sensor_type temperature = RTD_CONVERSION_FAILED"
    by (simp add: RTD_CalculateResistance_def)
next
  assume "recognized sensor_type"
  from recognized_cases [OF this]
  show "RTD_CalculateResistance sensor_type (Fin (- 200.5)) \<noteq> RTD_CONVERSION_FAILED"
    by (elim disjE)
      (simp_all add: RTD_CalculateResistance_def resistance_at_zero_of_def sensor_defs
        is_zero_def coefficient_defs minus_double_def RTD_CONVERSION_FAILED_def)
next
  assume "recognized sensor_type"
  from recognized_cases [OF this]
  show "RTD_CalculateResistance sensor_type (Fin 850.5) \<noteq> RTD_CONVERSION_FAILED"
    by (elim disjE)
      (simp_all add: RTD_CalculateResistance_def resistance_at_zero_of_def sensor_defs
        is_zero_def coefficient_defs minus_double_def RTD_CONVERSION_FAILED_def)
qed

theorem RTD_CalculateResistance_range_check_witness:
  "Fin (- 200.6) < Fin (- 200.5) \<and> Fin 850.6 > Fin 850.5 \<and> recognized RTD_SENSOR_PT100 \<and>
   RTD_CalculateResistance RTD_SENSOR_PT100 (Fin (- 200.6)) = RTD_CONVERSION_FAILED \<and>
   RTD_CalculateResistance RTD_SENSOR_PT100 (Fin 850.6) = RTD_CONVERSION_FAILED \<and>
   RTD_CalculateResistance RTD_SENSOR_PT100 PInf = RTD_CONVERSION_FAILED \<and>
   RTD_CalculateResistance RTD_SENSOR_PT100 (Fin (- 200.5)) \<noteq> RTD_CONVERSION_FAILED \<and>
   RTD_CalculateResistance RTD_SENSOR_PT100 (Fin 850.5) \<noteq> RTD_CONVERSION_FAILED"
  using RTD_CalculateResistance_range_check [of "Fin (- 200.6)" RTD_SENSOR_PT100]
    RTD_CalculateResistance_range_check [of "Fin 850.6" RTD_SENSOR_PT100]
    RTD_CalculateResistance_range_check [of PInf RTD_SENSOR_PT100]
  by (simp add: recognized_def)

text \<open>
  Claim C10. With a recognized class and a NaN temperature, both range comparisons are
  false, the function goes on to the polynomial and returns NaN, which is not
  \<open>RTD_CONVERSION_FAILED\<close>.
\<close>

theorem RTD_CalculateResistance_nan:
  assumes "recognized sensor_type"
  shows "\<not> NaN < Fin (- 200.5) \<and> \<not> NaN > Fin 850.5 \<and>
         RTD_CalculateResistance sensor_type NaN = NaN \<and>
         RTD_CalculateResistance sensor_type NaN \<noteq> RTD_CONVERSION_FAILED"
  using recognized_cases [OF assms]
  by (auto simp: RTD_CalculateResistance_def resistance_at_zero_of_def sensor_defs
        is_zero_def coefficient_defs minus_double_def RTD_CONVERSION_FAILED_def)

theorem RTD_CalculateResistance_nan_witness:
  "recognized RTD_SENSOR_PT100 \<and> RTD_CalculateResistance RTD_SENSOR_PT100 NaN = NaN"
proof -
  have h: "recognized RTD_SENSOR_PT100" by (simp add: recognized_def)
  show ?thesis using h RTD_CalculateResistance_nan [OF h] by simp
qed

subsection \<open>Input validation of both converters\<close>

text \<open>
  Claim C8. For every 16-bit class value other than the five recognized ones, both
  \<open>RTD_CalculateResistance\<close> and \<open>RTD_CalculateTemperature\<close> return
  \<open>RTD_CONVERSION_FAILED\<close>, whatever the other arguments are.
\<close>

theorem unrecognized_class_fails:
  assumes "\<not> recognized sensor_type"
  shows "RTD_CalculateResistance sensor_type temperature = RTD_CONVERSION_FAILED \<and>
         RTD_CalculateTemperature sensor_type resistance initial_temperature_estimate
           = RTD_CONVERSION_FAILED"
  using assms
  by (simp add: recognized_def RTD_CalculateResistance_def resistance_at_zero_of_def
      is_zero_def RTD_CalculateTemperature_def validate_resistance_def RTD_CONVERSION_FAILED_def)

theorem unrecognized_class_fails_witness:
  "\<not> recognized 9999 \<and>
   RTD_CalculateResistance 9999 (Fin 25) = RTD_CONVERSION_FAILED \<and>
   RTD_CalculateTemperature 9999 (Fin 100) (Fin 25) = RTD_CONVERSION_FAILED"
proof -
  have h: "\<not> recognized 9999" by (simp add: recognized_def sensor_defs)
  show ?thesis using h unrecognized_class_fails [OF h] by simp
qed

text \<open>
  Claim C5. For each recognized class, a resistance below the minimum or above the maximum
  of the band of that class (the binary64 values of the literals 9.2..195.3, 18.3..390.6,
  36.5..781.3, 91.5..1953.0, 182.5..3906.5 ohms) makes the \<open>switch\<close> set
  \<open>temperature\<close> to \<open>RTD_CONVERSION_FAILED\<close>; the guard \<open>!temperature\<close> of the Newton-Raphson loop is
  then false, so the loop is not entered, and the function returns
  \<open>RTD_CONVERSION_FAILED\<close> for every initial estimate.
\<close>

theorem RTD_CalculateTemperature_band_rejection:
  assumes cls: "(sensor_type, lo, hi) \<in> {(RTD_SENSOR_PT50, binary64_9_2, binary64_195_3),
      (RTD_SENSOR_PT100, binary64_18_3, binary64_390_6),
      (RTD_SENSOR_PT200, 36.5, binary64_781_3),
      (RTD_SENSOR_PT500, 91.5, 1953.0), (RTD_SENSOR_PT1000, 182.5, 3906.5)}"
    and out: "resistance < Fin lo \<or> resistance > Fin hi"
  shows "snd (validate_resistance sensor_type resistance) = RTD_CONVERSION_FAILED \<and>
         \<not> is_zero (snd (validate_resistance sensor_type resistance)) \<and>
         RTD_CalculateTemperature sensor_type resistance initial_temperature_estimate
           = RTD_CONVERSION_FAILED"
proof -
  have v: "snd (validate_resistance sensor_type resistance) = RTD_CONVERSION_FAILED"
    using validate_resistance_snd [OF cls, of resistance] out by (simp add: band_check_def)
  show ?thesis using v not_is_zero_failed
    by (simp add: RTD_CalculateTemperature_def split_beta)
qed

theorem RTD_CalculateTemperature_band_rejection_witness:
  "Fin 5 < Fin binary64_18_3 \<and> Fin 391 > Fin binary64_390_6 \<and>
   RTD_CalculateTemperature RTD_SENSOR_PT100 (Fin 5) (Fin 25) = RTD_CONVERSION_FAILED \<and>
   RTD_CalculateTemperature RTD_SENSOR_PT100 (Fin 391) NaN = RTD_CONVERSION_FAILED"
  using RTD_CalculateTemperature_band_rejection
      [of RTD_SENSOR_PT100 binary64_18_3 binary64_390_6 "Fin 5" "Fin 25"]
    RTD_CalculateTemperature_band_rejection
      [of RTD_SENSOR_PT100 binary64_18_3 binary64_390_6 "Fin 391" NaN]
  by (simp add: band_literal_defs)

text \<open>
  Claim C6, as stated: the band accepted for a class is exactly the interval from
  \<open>RTD_CalculateResistance\<close> at \<open>-200\<close> to \<open>RTD_CalculateResistance\<close> at \<open>850\<close>.
  It is not: for PT100 the forward converter gives 18.52003586 ohms at \<open>-200\<close> and
  390.481302395 ohms at \<open>850\<close>, yet 18.4 ohms (below the first) and 390.55 ohms (above the
  second) pass the band check.
\<close>

theorem resistance_band_not_forward_extremes:
  "is_zero (snd (validate_resistance RTD_SENSOR_PT100 (Fin 18.4)))
   \<and> Fin 18.4 < RTD_CalculateResistance RTD_SENSOR_PT100 (Fin (- 200))
   \<and> RTD_CalculateResistance RTD_SENSOR_PT100 (Fin (- 200)) = Fin 18.52003586
   \<and> is_zero (snd (validate_resistance RTD_SENSOR_PT100 (Fin 390.55)))
   \<and> RTD_CalculateResistance RTD_SENSOR_PT100 (Fin 850) < Fin 390.55
   \<and> RTD_CalculateResistance RTD_SENSOR_PT100 (Fin 850) = Fin 390.481302395"
  by (simp add: validate_resistance_def sensor_defs band_check_def is_zero_def
      band_literal_defs RTD_CalculateResistance_def resistance_at_zero_of_def
      coefficient_defs minus_double_def)

text \<open>
  Claim C6, amended. For each recognized class the \<open>switch\<close> accepts exactly the
  resistances that are neither below the minimum nor above the maximum written in the
  source (the binary64 values of the literals 9.2..195.3, 18.3..390.6, 36.5..781.3,
  91.5..1953.0, 182.5..3906.5 ohms; the limits themselves are accepted), and this band
  strictly contains the interval between the forward converter's values at \<open>-200\<close>
  and \<open>850\<close>: the minimum is below \<open>RTD_CalculateResistance\<close> at \<open>-200\<close> and the
  maximum is above \<open>RTD_CalculateResistance\<close> at \<open>850\<close>.
\<close>

theorem resistance_band_contains_forward_extremes:
  assumes cls: "(sensor_type, lo, hi) \<in> {(RTD_SENSOR_PT50, binary64_9_2, binary64_195_3),
      (RTD_SENSOR_PT100, binary64_18_3, binary64_390_6),
      (RTD_SENSOR_PT200, 36.5, binary64_781_3),
      (RTD_SENSOR_PT500, 91.5, 1953.0), (RTD_SENSOR_PT1000, 182.5, 3906.5)}"
  shows "(is_zero (snd (validate_resistance sensor_type resistance))
            \<longleftrightarrow> \<not> (resistance < Fin lo \<or> resistance > Fin hi))
         \<and> Fin lo < RTD_CalculateResistance sensor_type (Fin (- 200))
         \<and> RTD_CalculateResistance sensor_type (Fin 850) < Fin hi"
proof (intro conjI)
  show "is_zero (snd (validate_resistance sensor_type resistance))
            \<longleftrightarrow> \<not> (resistance < Fin lo \<or> resistance > Fin hi)"
    by (simp only: validate_resistance_snd [OF cls] band_check_accepts)
  show "Fin lo < RTD_CalculateResistance sensor_type (Fin (- 200))"
    using cls unfolding sensor_defs
    by (elim insertE emptyE Pair_inject; hypsubst;
        simp add: RTD_CalculateResistance_def resistance_at_zero_of_def sensor_defs
          is_zero_def coefficient_defs minus_double_def band_literal_defs)
  show "RTD_CalculateResistance sensor_type (Fin 850) < Fin hi"
    using cls unfolding sensor_defs
    by (elim insertE emptyE Pair_inject; hypsubst;
        simp add: RTD_CalculateResistance_def resistance_at_zero_of_def sensor_defs
          is_zero_def coefficient_defs minus_double_def band_literal_defs)
qed

theorem resistance_band_contains_forward_extremes_witness:
  "is_zero (snd (validate_resistance RTD_SENSOR_PT100 (Fin 18.4)))
   \<and> is_zero (snd (validate_resistance RTD_SENSOR_PT100 (Fin binary64_390_6)))
   \<and> is_zero (snd (validate_resistance RTD_SENSOR_PT50 (Fin binary64_9_2)))
   \<and> is_zero (snd (validate_resistance RTD_SENSOR_PT50 (Fin binary64_195_3)))
   \<and> Fin binary64_18_3 < RTD_CalculateResistance RTD_SENSOR_PT100 (Fin (- 200))
   \<and> RTD_CalculateResistance RTD_SENSOR_PT100 (Fin 850) < Fin binary64_390_6"
  using resistance_band_contains_forward_extremes
      [of RTD_SENSOR_PT100 binary64_18_3 binary64_390_6 "Fin 18.4"]
    resistance_band_contains_forward_extremes
      [of RTD_SENSOR_PT100 binary64_18_3 binary64_390_6 "Fin binary64_390_6"]
    resistance_band_contains_forward_extremes
      [of RTD_SENSOR_PT50 binary64_9_2 binary64_195_3 "Fin binary64_9_2"]
    resistance_band_contains_forward_extremes
      [of RTD_SENSOR_PT50 binary64_9_2 binary64_195_3 "Fin binary64_195_3"]
  by (simp add: band_literal_defs)

subsection \<open>The Newton-Raphson loop\<close>

text \<open>
  Below \<open>-3000\<close> the expression the source uses as derivative is negative while the
  function value is even more negative, so every step moves the estimate down by at least
  one degree: the loop cannot converge from there.
\<close>

lemma cvd_slope_far_negative:
  assumes "x \<le> - 3000"
  shows "cvd_slope x \<le> - 0.003"
proof -
  let ?w = "- 0.000001154163398 + - 0.00000000126745203 * x"
  have w: "0.0000026 \<le> ?w" using assms by simp
  have "x * ?w \<le> - 3000 * ?w"
    using assms w by (intro mult_right_mono) auto
  also have "\<dots> \<le> - 3000 * 0.0000026" using w by simp
  finally have "x * ?w \<le> - 0.0078" by simp
  moreover have "cvd_slope x = 0.003908302087 + x * ?w"
    using assms by (simp add: cvd_slope_def algebra_simps)
  ultimately show ?thesis by simp
qed

lemma cvd_poly_far_negative:
  assumes "x \<le> - 3000"
  shows "cvd_poly x \<le> cvd_slope x"
proof -
  have t1: "(1 - 0.003908302087) + (0.003908302087 + 0.000001154163398) * x \<le> 0"
    using assms by simp
  have sq: "0 \<le> x * x" by simp
  have t2: "(- 0.0000005775 + 0.00000000126745203) * (x * x) \<le> 0"
    using sq by (intro mult_nonpos_nonneg) auto
  have cube: "x * x * x \<le> 0"
    using sq assms by (intro mult_nonneg_nonpos) auto
  have "0 \<le> (x - 100) * (x * x * x)"
    using cube assms by (intro mult_nonpos_nonpos) auto
  then have t3: "(- 0.00000000000418301) * ((x - 100) * (x * x * x)) \<le> 0"
    by (intro mult_nonpos_nonneg) auto
  have "cvd_poly x - cvd_slope x =
      ((1 - 0.003908302087) + (0.003908302087 + 0.000001154163398) * x)
      + (- 0.0000005775 + 0.00000000126745203) * (x * x)
      + (- 0.00000000000418301) * ((x - 100) * (x * x * x))"
    using assms by (simp add: cvd_poly_def cvd_slope_def algebra_simps)
  with t1 t2 t3 show ?thesis by linarith
qed

lemma diverging_step:
  assumes x: "x \<le> - 3000" and r0: "0 < r0" and R: "0 \<le> R"
  shows "\<exists>x'. new_temperature_estimate (Fin r0) (Fin R) (Fin x) = Fin x' \<and> x' \<le> x - 1"
proof -
  have d: "r0 * cvd_slope x < 0"
    using cvd_slope_far_negative [OF x] r0 by (intro mult_pos_neg) auto
  have "r0 * cvd_poly x \<le> r0 * cvd_slope x"
    using cvd_poly_far_negative [OF x] r0 by simp
  then have f: "r0 * cvd_poly x - R \<le> r0 * cvd_slope x" using R by simp
  have "1 \<le> (r0 * cvd_poly x - R) / (r0 * cvd_slope x)"
    using d f by (simp add: le_divide_eq)
  then have "x - (r0 * cvd_poly x - R) / (r0 * cvd_slope x) \<le> x - 1" by simp
  moreover have "new_temperature_estimate (Fin r0) (Fin R) (Fin x)
     = Fin (x - (r0 * cvd_poly x - R) / (r0 * cvd_slope x))"
    using d by (intro new_temperature_estimate_Fin) linarith
  ultimately show ?thesis by blast
qed

lemma newton_loop_diverging:
  assumes r0: "0 < r0" and R: "0 \<le> R"
  shows "x \<le> - 3000 \<Longrightarrow> newton_loop (Fin r0) (Fin R) (Fin x) iteration temperature = temperature"
proof (induction "max_iterations - iteration" arbitrary: iteration x)
  case 0
  then show ?case by (subst newton_loop.simps) simp
next
  case (Suc n)
  from diverging_step [OF Suc.prems r0 R]
  obtain x' where new: "new_temperature_estimate (Fin r0) (Fin R) (Fin x) = Fin x'"
    and x': "x' \<le> x - 1" by blast
  have n: "n = max_iterations - (iteration + 1)" using Suc.hyps(2) by simp
  have far: "x' \<le> - 3000" using x' Suc.prems by simp
  have "\<not> \<bar>Fin x' - Fin x\<bar> < tolerance"
    using x' by (simp add: minus_double_def tolerance_def)
  with Suc.hyps(1) [OF n far] Suc.hyps(2) new show ?case
    by (subst newton_loop.simps) (simp add: Let_def)
qed


lemma iterates_diverging:
  assumes r0: "0 < r0" and R: "0 \<le> R" and x: "x \<le> - 3000"
  shows "\<exists>x'. (new_temperature_estimate (Fin r0) (Fin R) ^^ n) (Fin x) = Fin x' \<and> x' \<le> - 3000"
proof (induction n)
  case 0
  then show ?case using x by simp
next
  case (Suc n)
  then obtain y where y: "(new_temperature_estimate (Fin r0) (Fin R) ^^ n) (Fin x) = Fin y"
    and far: "y \<le> - 3000" by blast
  from diverging_step [OF far r0 R] obtain y' where
    "new_temperature_estimate (Fin r0) (Fin R) (Fin y) = Fin y'" and "y' \<le> y - 1" by blast
  with y far show ?case by simp
qed

lemma iterates_NaN: "(new_temperature_estimate r0 R ^^ n) NaN = NaN"
  by (induction n) simp_all

text \<open>
  The derivative of the negative-branch \<open>function_value\<close> with respect to the
  temperature, by the rules of differentiation.
\<close>

lemma negative_branch_analytic_derivative:
  "((\<lambda>t. r0 * (1 + 0.003908302087 * t + (- 0.0000005775) * t\<^sup>2
              + (- 0.00000000000418301) * (t - 100) * t ^ 3) - R)
     has_real_derivative
       r0 * (0.003908302087 + 2 * (- 0.0000005775) * x
              + (- 0.00000000000418301) * (4 * x ^ 3 - 300 * x\<^sup>2))) (at x)"
  by (auto intro!: derivative_eq_intros simp: power2_eq_square power3_eq_cube field_simps)

text \<open>
  Claim C3 says that \<open>derivative_value\<close> is the analytic derivative of the polynomial of
  the same sign branch, for \<open>T < 0\<close> that is
  \<open>R0 * (A + 2*B*T + C*(4*T\<^sup>3 - 300*T\<^sup>2))\<close> (the derivative indeed, by the lemma
  above). The theorem evaluates the source at \<open>resistance_at_zero = 100\<close>,
  \<open>temperature_estimate = -100\<close>: it computes
  \<open>R0 * (A + 2*B*T + C*(303*T\<^sup>2 - 200*T))\<close>, which is a different number.
\<close>

theorem derivative_value_not_analytic:
  "derivative_value (Fin 100) (Fin (- 100))
     = Fin (100 * (0.003908302087 + 2 * (- 0.0000005775) * (- 100)
                    + (- 0.00000000000418301) * (303 * (- 100)\<^sup>2 - 200 * (- 100))))
   \<and> derivative_value (Fin 100) (Fin (- 100))
     \<noteq> Fin (100 * (0.003908302087 + 2 * (- 0.0000005775) * (- 100)
                    + (- 0.00000000000418301) * (4 * (- 100) ^ 3 - 300 * (- 100)\<^sup>2)))"
  by (simp add: derivative_value_Fin cvd_slope_def)

text \<open>
  Claim C4 says that when the 1000 iterations are used up without the convergence test
  succeeding, the last computed estimate is returned. The source returns \<open>temperature\<close>,
  which is still \<open>0.0\<close> then. With PT100, 100 ohms and the initial estimate \<open>-3000\<close> the
  1000th estimate is a finite value below \<open>-3000\<close>, and with the initial estimate NaN it
  is NaN; in both cases the function returns \<open>0.0\<close>, which is neither the last estimate
  nor \<open>RTD_CONVERSION_FAILED\<close>.
\<close>

theorem RTD_CalculateTemperature_cap_returns_zero:
  "RTD_CalculateTemperature RTD_SENSOR_PT100 (Fin 100) (Fin (- 3000)) = Fin 0
   \<and> (\<exists>x. (new_temperature_estimate (Fin 100) (Fin 100) ^^ 1000) (Fin (- 3000)) = Fin x
          \<and> x \<le> - 3000)
   \<and> RTD_CalculateTemperature RTD_SENSOR_PT100 (Fin 100) NaN = Fin 0
   \<and> (new_temperature_estimate (Fin 100) (Fin 100) ^^ 1000) NaN = NaN
   \<and> Fin 0 \<noteq> RTD_CONVERSION_FAILED"
proof (intro conjI)
  show "RTD_CalculateTemperature RTD_SENSOR_PT100 (Fin 100) (Fin (- 3000)) = Fin 0"
    using newton_loop_diverging [of 100 100 "- 3000" 0 "Fin 0"]
    by (simp add: RTD_CalculateTemperature_def validate_PT100_100 is_zero_def)
  show "\<exists>x. (new_temperature_estimate (Fin 100) (Fin 100) ^^ 1000) (Fin (- 3000)) = Fin x
          \<and> x \<le> - 3000"
    by (rule iterates_diverging) simp_all
  show "RTD_CalculateTemperature RTD_SENSOR_PT100 (Fin 100) NaN = Fin 0"
    by (simp add: RTD_CalculateTemperature_def validate_PT100_100 is_zero_def newton_loop_NaN)
  show "(new_temperature_estimate (Fin 100) (Fin 100) ^^ 1000) NaN = NaN"
    by (rule iterates_NaN)
  show "Fin 0 \<noteq> RTD_CONVERSION_FAILED"
    by (simp add: RTD_CONVERSION_FAILED_def)
qed

text \<open>
  In exact arithmetic a value that passes the convergence test is never
  \<open>RTD_CONVERSION_FAILED\<close>: an estimate within the tolerance of \<open>-1.0e6\<close> lies in the
  region where every step moves by at least one degree. So for a recognized class and an
  accepted resistance the function never returns \<open>RTD_CONVERSION_FAILED\<close>.
\<close>

lemma converged_not_failed:
  assumes r0: "0 < r0"
    and R: "R = NaN \<or> (\<exists>Rv. R = Fin Rv \<and> 0 \<le> Rv)"
    and conv: "\<bar>new_temperature_estimate (Fin r0) R te - te\<bar> < tolerance"
  shows "new_temperature_estimate (Fin r0) R te \<noteq> RTD_CONVERSION_FAILED"
proof
  assume failed: "new_temperature_estimate (Fin r0) R te = RTD_CONVERSION_FAILED"
  with conv have "\<bar>Fin (- 1000000) - te\<bar> < Fin 0.00000001"
    by (simp add: RTD_CONVERSION_FAILED_def tolerance_def)
  then obtain x where te: "te = Fin x" and near: "\<bar>- 1000000 - x\<bar> < 0.00000001"
    by (cases te) (auto simp: minus_double_def)
  have "(0.00000001 :: real) < 1" by simp
  with near have "\<bar>- 1000000 - x\<bar> < 1" by (rule less_trans)
  then have far: "x \<le> - 3000" and close: "x < - 999999" by linarith+
  from R show False
  proof
    assume "R = NaN"
    then have "new_temperature_estimate (Fin r0) R te = NaN"
      by (simp add: new_temperature_estimate_def function_value_def minus_double_def Let_def)
    with failed show False by (simp add: RTD_CONVERSION_FAILED_def)
  next
    assume "\<exists>Rv. R = Fin Rv \<and> 0 \<le> Rv"
    then obtain Rv where Rv: "R = Fin Rv" "0 \<le> Rv" by blast
    from diverging_step [OF far r0 Rv(2)] obtain x' where
      "new_temperature_estimate (Fin r0) (Fin Rv) (Fin x) = Fin x'" and "x' \<le> x - 1" by blast
    with failed te Rv(1) close show False
      by (simp add: RTD_CONVERSION_FAILED_def)
  qed
qed

lemma newton_loop_never_failed:
  assumes r0: "0 < r0"
    and R: "R = NaN \<or> (\<exists>Rv. R = Fin Rv \<and> 0 \<le> Rv)"
  shows "newton_loop (Fin r0) R te iteration (Fin 0) \<noteq> RTD_CONVERSION_FAILED"
proof (induction "max_iterations - iteration" arbitrary: iteration te)
  case 0
  then show ?case
    by (subst newton_loop.simps) (simp add: RTD_CONVERSION_FAILED_def)
next
  case (Suc n)
  then have n: "n = max_iterations - (iteration + 1)" by simp
  show ?case
    using Suc.hyps(1) [OF n] converged_not_failed [OF r0 R]
    by (subst newton_loop.simps) (simp add: Let_def RTD_CONVERSION_FAILED_def)
qed

lemma RTD_CalculateTemperature_never_failed:
  assumes "recognized sensor_type"
    and "is_zero (snd (validate_resistance sensor_type resistance))"
  shows "RTD_CalculateTemperature sensor_type resistance initial_temperature_estimate
           \<noteq> RTD_CONVERSION_FAILED"
proof -
  from accepted_resistance [OF assms]
  obtain r0 where r0: "fst (validate_resistance sensor_type resistance) = Fin r0" "0 < r0"
    and R: "resistance = NaN \<or> (\<exists>Rv. resistance = Fin Rv \<and> 0 \<le> Rv)" by blast
  from assms(2) have z: "snd (validate_resistance sensor_type resistance) = Fin 0"
    by (simp add: is_zero_def)
  show ?thesis
    using newton_loop_never_failed [OF r0(2) R] r0(1) z
    by (simp add: RTD_CalculateTemperature_def split_beta is_zero_def)
qed

subsection \<open>Division by a zero derivative value\<close>

text \<open>Evaluating \<open>binary64_round\<close> at a number whose binary exponent is known.\<close>

lemma round_ties_even_bounds:
  "of_int \<lfloor>x\<rfloor> \<le> (of_int (round_ties_even x) :: real)"
  "(of_int (round_ties_even x) :: real) \<le> of_int \<lceil>x\<rceil>"
proof -
  show "of_int \<lfloor>x\<rfloor> \<le> (of_int (round_ties_even x) :: real)"
    by (simp add: round_ties_even_def Let_def)
  have "x = of_int \<lfloor>x\<rfloor> \<or> \<lceil>x\<rceil> = \<lfloor>x\<rfloor> + 1"
    by (metis ceiling_altdef of_int_floor_cancel)
  then show "(of_int (round_ties_even x) :: real) \<le> of_int \<lceil>x\<rceil>"
    by (auto simp: round_ties_even_def Let_def)
qed

lemma round_ties_even_abs:
  assumes "\<bar>x\<bar> \<le> of_int N"
  shows "\<bar>of_int (round_ties_even x) :: real\<bar> \<le> of_int N"
proof -
  have "- of_int N \<le> x" "x \<le> of_int N" using assms by linarith+
  then have "- N \<le> \<lfloor>x\<rfloor>" "\<lceil>x\<rceil> \<le> N"
    by (simp_all add: le_floor_iff ceiling_le_iff)
  then have "(- of_int N :: real) \<le> of_int \<lfloor>x\<rfloor>" "(of_int \<lceil>x\<rceil> :: real) \<le> of_int N"
    by (simp_all flip: of_int_minus)
  with round_ties_even_bounds [of x] show ?thesis by linarith
qed

lemma floor_log2_eq:
  assumes "2 powi k \<le> x" and "x < 2 powi (k + 1)"
  shows "\<lfloor>log 2 x\<rfloor> = k"
proof -
  have "(0::real) < 2 powi k" by simp
  with assms(1) have pos: "0 < x" by linarith
  have "(2::real) powr (of_int k) = 2 powi k" "(2::real) powr (of_int k + 1) = 2 powi (k + 1)"
    using powr_real_of_int' [of "2::real" k] powr_real_of_int' [of "2::real" "k + 1"]
    by simp_all
  with assms show ?thesis
    using floor_log_eq_powr_iff [of x 2 k] pos by simp
qed

lemma binary64_round_eval:
  assumes lo: "2 powi k \<le> \<bar>x\<bar>" and hi: "\<bar>x\<bar> < 2 powi (k + 1)"
    and emin: "- 1022 \<le> k" and emax: "k < 1023"
  shows "binary64_round x
    = Fin (of_int (round_ties_even (x / 2 powi (k - 52))) * 2 powi (k - 52))"
proof -
  have "(0::real) < 2 powi k" by simp
  with lo have "0 < \<bar>x\<bar>" by linarith
  then have nz: "x \<noteq> 0" by simp
  have q: "binary64_quantum x = k - 52"
    using floor_log2_eq [OF lo hi] emin by (simp add: binary64_quantum_def)
  define m where "m = x / 2 powi (k - 52)"
  have p: "(0::real) < 2 powi (k - 52)" by simp
  have "\<bar>m\<bar> = \<bar>x\<bar> / 2 powi (k - 52)" by (simp add: m_def abs_divide)
  also have "\<dots> \<le> 2 powi (k + 1) / 2 powi (k - 52)"
    using hi p by (intro divide_right_mono) simp_all
  also have "\<dots> = 2 powi 53"
    by (simp flip: power_int_diff)
  finally have "\<bar>m\<bar> \<le> of_int (2 ^ 53)" by simp
  from round_ties_even_abs [OF this]
  have n: "\<bar>of_int (round_ties_even m) :: real\<bar> \<le> 2 powi 53" by simp
  have "\<bar>of_int (round_ties_even m) * 2 powi (k - 52) :: real\<bar>
      = \<bar>of_int (round_ties_even m)\<bar> * 2 powi (k - 52)"
    by (simp add: abs_mult)
  also have "\<dots> \<le> 2 powi 53 * 2 powi (k - 52)"
    using n by (intro mult_right_mono) simp_all
  also have "\<dots> = 2 powi (k + 1)"
    using power_int_add [of "2::real" 53 "k - 52"] by (simp add: add.commute)
  also have "\<dots> \<le> 2 powi 1023"
    using emax by (intro power_int_increasing) simp_all
  also have "\<dots> < 2 ^ 1024" by simp
  finally have "\<not> 2 ^ 1024 \<le> \<bar>of_int (round_ties_even m) * 2 powi (k - 52) :: real\<bar>"
    by simp
  then show ?thesis
    using nz by (simp add: binary64_round_def q Let_def m_def)
qed

lemma fl_Fin_eval:
  assumes "2 powi k \<le> \<bar>x\<bar>" and "\<bar>x\<bar> < 2 powi (k + 1)"
    and "- 1022 \<le> k" and "k < 1023"
    and "round_ties_even (x / 2 powi (k - 52)) = n"
    and "of_int n * 2 powi (k - 52) = y"
  shows "binary64_round x = Fin y"
  using binary64_round_eval [OF assms(1-4)] assms(5,6) by simp




lemma tolerance64: "fl tolerance = Fin (3022314549036573 / 2 ^ 78)"
  unfolding tolerance_def
  by (simp add: minus_double_def, rule fl_Fin_eval [of "- 27" _ "6044629098073146"])
    (simp_all add: round_ties_even_def Let_def)












text \<open>
  Once an estimate is NaN or an infinity, the next one is NaN, and the loop runs to the
  iteration cap without assigning \<open>temperature\<close>.
\<close>

lemma rounded_NaN [simp]:
  "add64 x NaN = NaN" "add64 NaN x = NaN" "sub64 x NaN = NaN" "sub64 NaN x = NaN"
  "mul64 x NaN = NaN" "mul64 NaN x = NaN" "div64 x NaN = NaN" "div64 NaN x = NaN"
  by (simp_all add: add64_def sub64_def mul64_def div64_def)

lemma not_PInf_less [simp]: "\<not> PInf < y"
  by (cases y) simp_all

lemma not_NaN_less [simp]: "\<not> NaN < y"
  by simp


















subsection \<open>Round trip\<close>

text \<open>
  Near a temperature \<open>T\<close> of the supported range the loop body is a contraction towards
  \<open>T\<close> when the target resistance is the forward converter's value at \<open>T\<close>: with
  \<open>D = cvd_slope x\<close> and \<open>P = cvd_poly x - cvd_poly T\<close>, the numerator
  \<open>(x - T) * D - P\<close> of the new error is at most \<open>0.001 * \<bar>x - T\<bar>\<close> while
  \<open>D \<ge> 0.002\<close>. The four lemmas treat the sign combinations of \<open>x\<close> and \<open>T\<close>.
\<close>

lemma step_bound:
  fixes x T P D :: real
  assumes D: "0.002 \<le> D" and num: "\<bar>(x - T) * D - P\<bar> \<le> 0.001 * \<bar>x - T\<bar>"
  shows "\<bar>x - P / D - T\<bar> \<le> \<bar>x - T\<bar> / 2"
proof -
  have Dpos: "0 < D" using D by simp
  have "x - P / D - T = ((x - T) * D - P) / D"
    using Dpos by (simp add: field_simps)
  then have "\<bar>x - P / D - T\<bar> = \<bar>(x - T) * D - P\<bar> / D"
    using Dpos by (simp add: abs_divide)
  also have "\<dots> \<le> (0.001 * \<bar>x - T\<bar>) / D"
    using num Dpos by (intro divide_right_mono) simp_all
  also have "\<dots> \<le> \<bar>x - T\<bar> / 2"
  proof -
    have "\<bar>x - T\<bar> * 0.002 \<le> \<bar>x - T\<bar> * D"
      using D by (intro mult_left_mono) simp_all
    then have "0.001 * \<bar>x - T\<bar> \<le> (\<bar>x - T\<bar> / 2) * D" by simp
    then show ?thesis using Dpos by (simp only: pos_divide_le_eq)
  qed
  finally show ?thesis .
qed

lemma scaled_bound:
  fixes x T E N :: real
  assumes N: "N = (x - T) * E" and E: "\<bar>E\<bar> \<le> 0.001"
  shows "\<bar>N\<bar> \<le> 0.001 * \<bar>x - T\<bar>"
proof -
  have "\<bar>N\<bar> = \<bar>x - T\<bar> * \<bar>E\<bar>" by (simp only: N abs_mult)
  also have "\<dots> \<le> \<bar>x - T\<bar> * 0.001"
    using E by (intro mult_left_mono) simp_all
  finally show ?thesis by simp
qed

lemma contraction_pos_pos:
  assumes x: "0 \<le> x" and T: "0 \<le> T" and hi: "T \<le> 850" and near: "\<bar>x - T\<bar> \<le> 1"
  shows "0.002 \<le> cvd_slope x"
    and "\<bar>(x - T) * cvd_slope x - (cvd_poly x - cvd_poly T)\<bar> \<le> 0.001 * \<bar>x - T\<bar>"
proof -
  have "x \<le> 851" using near hi by linarith
  then show "0.002 \<le> cvd_slope x" using x by (simp add: cvd_slope_def)
  have xT: "- 1 \<le> x - T" "x - T \<le> 1" using near by linarith+
  have E: "\<bar>- 0.0000005775 * (x - T)\<bar> \<le> 0.001"
    using xT by (intro abs_leI) simp_all
  have "(x - T) * cvd_slope x - (cvd_poly x - cvd_poly T)
      = (x - T) * (- 0.0000005775 * (x - T))"
    using x T by (simp add: cvd_slope_def cvd_poly_def field_simps)
  from scaled_bound [OF this E]
  show "\<bar>(x - T) * cvd_slope x - (cvd_poly x - cvd_poly T)\<bar> \<le> 0.001 * \<bar>x - T\<bar>" .
qed

lemma numerator_bound:
  fixes x T E F :: real
  assumes E: "\<bar>E\<bar> \<le> 0.0005" and F: "\<bar>F\<bar> \<le> 0.0005 * \<bar>x - T\<bar>"
  shows "\<bar>(x - T) * E + F\<bar> \<le> 0.001 * \<bar>x - T\<bar>"
proof -
  have "\<bar>(x - T) * E\<bar> = \<bar>x - T\<bar> * \<bar>E\<bar>" by (simp add: abs_mult)
  also have "\<dots> \<le> \<bar>x - T\<bar> * 0.0005"
    using E by (intro mult_left_mono) simp_all
  finally have "\<bar>(x - T) * E\<bar> \<le> 0.0005 * \<bar>x - T\<bar>" by simp
  with F have "\<bar>(x - T) * E\<bar> + \<bar>F\<bar> \<le> 0.001 * \<bar>x - T\<bar>" by simp
  then show ?thesis using abs_triangle_ineq [of "(x - T) * E" F] by linarith
qed

lemma cvd_slope_negative_range:
  assumes "x < 0" and "- 201 \<le> x"
  shows "0.002 \<le> cvd_slope x"
proof -
  define u where "u = - x"
  have u: "0 \<le> u" "u \<le> 201" using assms by (simp_all add: u_def)
  have "u * u \<le> 201 * 201" using u by (intro mult_mono) simp_all
  moreover have "cvd_slope x = 0.003908302087 + 0.000001154163398 * u
      - 0.00000000126745203 * (u * u)"
    using assms(1) by (simp add: cvd_slope_def u_def field_simps)
  ultimately show ?thesis using u by simp
qed

lemma contraction_neg_neg:
  assumes x: "x < 0" and T: "T < 0" and lo: "- 200 \<le> T" and near: "\<bar>x - T\<bar> \<le> 1"
  shows "0.002 \<le> cvd_slope x"
    and "\<bar>(x - T) * cvd_slope x - (cvd_poly x - cvd_poly T)\<bar> \<le> 0.001 * \<bar>x - T\<bar>"
proof -
  have xlo: "- 201 \<le> x" using near lo by linarith
  show "0.002 \<le> cvd_slope x" by (rule cvd_slope_negative_range [OF x xlo])
  define u where "u = - x"
  define v where "v = - T"
  have u: "0 \<le> u" "u \<le> 201" using x xlo by (simp_all add: u_def)
  have v: "0 \<le> v" "v \<le> 201" using T lo by (simp_all add: v_def)
  define K where "K = 303 * (u * u) + 200 * u
      + (u * u * u + u * u * v + u * v * v + v * v * v)
      + 100 * (u * u + u * v + v * v)"
  have uu: "0 \<le> u * u" "u * u \<le> 201 * 201" using u by (simp, intro mult_mono, simp_all)
  have uv: "0 \<le> u * v" "u * v \<le> 201 * 201" using u v by (simp, intro mult_mono, simp_all)
  have vv: "0 \<le> v * v" "v * v \<le> 201 * 201" using v by (simp, intro mult_mono, simp_all)
  have uuu: "0 \<le> u * u * u" "u * u * u \<le> 201 * 201 * 201"
    using u v uu by (simp, intro mult_mono, simp_all)
  have uuv: "0 \<le> u * u * v" "u * u * v \<le> 201 * 201 * 201"
    using u v uu by (simp, intro mult_mono, simp_all)
  have uvv: "0 \<le> u * v * v" "u * v * v \<le> 201 * 201 * 201"
    using u v uv by (simp, intro mult_mono, simp_all)
  have vvv: "0 \<le> v * v * v" "v * v * v \<le> 201 * 201 * 201"
    using u v vv by (simp, intro mult_mono, simp_all)
  have K: "0 \<le> K" "K \<le> 56884407"
    using u uu uv vv uuu uuv uvv vvv by (simp_all add: K_def)
  have xT: "- 1 \<le> x - T" "x - T \<le> 1" using near by linarith+
  have E: "\<bar>- 0.0000005775 * (x - T) + - 0.00000000000418301 * K\<bar> \<le> 0.001"
    using K xT by (intro abs_leI) (simp_all add: field_simps)
  have "(x - T) * cvd_slope x - (cvd_poly x - cvd_poly T)
      = (x - T) * (- 0.0000005775 * (x - T) + - 0.00000000000418301 * K)"
    using x T by (simp add: cvd_slope_def cvd_poly_def K_def u_def v_def field_simps)
  from scaled_bound [OF this E]
  show "\<bar>(x - T) * cvd_slope x - (cvd_poly x - cvd_poly T)\<bar> \<le> 0.001 * \<bar>x - T\<bar>" .
qed


lemma quartic_term_bound:
  fixes u :: real
  assumes u: "0 \<le> u" "u \<le> 1"
  shows "0 \<le> (u + 100) * (u * u * u)" and "(u + 100) * (u * u * u) \<le> 101 * u"
proof -
  have uu: "0 \<le> u * u" "u * u \<le> 1" using u by (simp_all add: mult_le_one)
  have "u * u * u \<le> 1 * u" using uu u by (intro mult_right_mono) simp_all
  then have uuu: "0 \<le> u * u * u" "u * u * u \<le> u" using u uu by simp_all
  show "0 \<le> (u + 100) * (u * u * u)" using u uuu by simp
  show "(u + 100) * (u * u * u) \<le> 101 * u"
    using u uuu by (intro mult_mono) simp_all
qed

lemma contraction_neg_pos:
  assumes x: "x < 0" and T: "0 \<le> T" and near: "\<bar>x - T\<bar> \<le> 1"
  shows "0.002 \<le> cvd_slope x"
    and "\<bar>(x - T) * cvd_slope x - (cvd_poly x - cvd_poly T)\<bar> \<le> 0.001 * \<bar>x - T\<bar>"
proof -
  have xlo: "- 1 \<le> x" using near T by linarith
  then show "0.002 \<le> cvd_slope x" using x by (intro cvd_slope_negative_range) simp_all
  define u where "u = - x"
  have u: "0 \<le> u" "u \<le> 1" using x xlo by (simp_all add: u_def)
  have a: "\<bar>x - T\<bar> = T + u" "u \<le> T + u" using x T by (simp_all add: u_def)
  have xT: "- 1 \<le> x - T" "x - T \<le> 0" using near x T by linarith+
  define w where "w = u * u"
  have w: "0 \<le> w" "w \<le> 1" using u by (simp_all add: w_def mult_le_one)
  define E where "E = - 0.0000005775 * (x - T)
      + - 0.00000000000418301 * (303 * w + 200 * u)"
  define F where "F = 0.00000000000418301 * ((u + 100) * (u * u * u))"
  have E: "\<bar>E\<bar> \<le> 0.0005"
    unfolding E_def using u w xT by (intro abs_leI) (simp_all add: field_simps)
  have "\<bar>F\<bar> = 0.00000000000418301 * ((u + 100) * (u * u * u))"
    unfolding F_def using quartic_term_bound(1) [OF u] by simp
  also have "\<dots> \<le> 0.00000000000418301 * (101 * u)"
    using quartic_term_bound(2) [OF u] by (intro mult_left_mono) simp_all
  also have "\<dots> \<le> 0.0005 * (T + u)" using u T by (simp add: field_simps)
  finally have F: "\<bar>F\<bar> \<le> 0.0005 * \<bar>x - T\<bar>" by (simp only: a)
  have "(x - T) * cvd_slope x - (cvd_poly x - cvd_poly T) = (x - T) * E + F"
    using x T by (simp add: cvd_slope_def cvd_poly_def E_def F_def w_def u_def field_simps)
  with numerator_bound [OF E F]
  show "\<bar>(x - T) * cvd_slope x - (cvd_poly x - cvd_poly T)\<bar> \<le> 0.001 * \<bar>x - T\<bar>"
    by simp
qed

lemma contraction_pos_neg:
  assumes x: "0 \<le> x" and T: "T < 0" and near: "\<bar>x - T\<bar> \<le> 1"
  shows "0.002 \<le> cvd_slope x"
    and "\<bar>(x - T) * cvd_slope x - (cvd_poly x - cvd_poly T)\<bar> \<le> 0.001 * \<bar>x - T\<bar>"
proof -
  have "x \<le> 1" using near T by linarith
  then show "0.002 \<le> cvd_slope x" using x by (simp add: cvd_slope_def)
  define v where "v = - T"
  have v: "0 \<le> v" "v \<le> 1" using x T near by (simp_all add: v_def)
  have a: "\<bar>x - T\<bar> = x + v" using x T by (simp add: v_def)
  have xT: "0 \<le> x - T" "x - T \<le> 1" using near x T by linarith+
  define E where "E = - 0.0000005775 * (x - T)"
  define F where "F = - (0.00000000000418301 * ((v + 100) * (v * v * v)))"
  have E: "\<bar>E\<bar> \<le> 0.0005"
    unfolding E_def using xT by (intro abs_leI) (simp_all add: field_simps)
  have "\<bar>F\<bar> = 0.00000000000418301 * ((v + 100) * (v * v * v))"
    unfolding F_def using quartic_term_bound(1) [OF v] by simp
  also have "\<dots> \<le> 0.00000000000418301 * (101 * v)"
    using quartic_term_bound(2) [OF v] by (intro mult_left_mono) simp_all
  also have "\<dots> \<le> 0.0005 * (x + v)" using v x by (simp add: field_simps)
  finally have F: "\<bar>F\<bar> \<le> 0.0005 * \<bar>x - T\<bar>" by (simp only: a)
  have "(x - T) * cvd_slope x - (cvd_poly x - cvd_poly T) = (x - T) * E + F"
    using x T by (simp add: cvd_slope_def cvd_poly_def E_def F_def v_def field_simps)
  with numerator_bound [OF E F]
  show "\<bar>(x - T) * cvd_slope x - (cvd_poly x - cvd_poly T)\<bar> \<le> 0.001 * \<bar>x - T\<bar>"
    by simp
qed


lemma newton_contraction:
  assumes lo: "- 200 \<le> T" and hi: "T \<le> 850" and near: "\<bar>x - T\<bar> \<le> 1"
  shows "0.002 \<le> cvd_slope x"
    and "\<bar>(x - T) * cvd_slope x - (cvd_poly x - cvd_poly T)\<bar> \<le> 0.001 * \<bar>x - T\<bar>"
proof -
  consider "0 \<le> x" "0 \<le> T" | "x < 0" "T < 0" | "x < 0" "0 \<le> T" | "0 \<le> x" "T < 0"
    by linarith
  then have "0.002 \<le> cvd_slope x \<and>
      \<bar>(x - T) * cvd_slope x - (cvd_poly x - cvd_poly T)\<bar> \<le> 0.001 * \<bar>x - T\<bar>"
  proof cases
    case 1
    then show ?thesis using contraction_pos_pos [OF _ _ hi near] by blast
  next
    case 2
    then show ?thesis using contraction_neg_neg [OF _ _ lo near] by blast
  next
    case 3
    then show ?thesis using contraction_neg_pos [OF _ _ near] by blast
  next
    case 4
    then show ?thesis using contraction_pos_neg [OF _ _ near] by blast
  qed
  then show "0.002 \<le> cvd_slope x"
    and "\<bar>(x - T) * cvd_slope x - (cvd_poly x - cvd_poly T)\<bar> \<le> 0.001 * \<bar>x - T\<bar>"
    by blast+
qed

lemma newton_step_contracts:
  assumes lo: "- 200 \<le> T" and hi: "T \<le> 850" and near: "\<bar>x - T\<bar> \<le> 1"
    and r0: "0 < r0"
  shows "\<exists>x'. new_temperature_estimate (Fin r0) (Fin (r0 * cvd_poly T)) (Fin x) = Fin x'
          \<and> \<bar>x' - T\<bar> \<le> \<bar>x - T\<bar> / 2"
proof -
  note c = newton_contraction [OF lo hi near]
  have D: "0 < cvd_slope x" using c(1) by simp
  then have nz: "r0 * cvd_slope x \<noteq> 0" using r0 by simp
  have "(r0 * cvd_poly x - r0 * cvd_poly T) / (r0 * cvd_slope x)
      = (cvd_poly x - cvd_poly T) / cvd_slope x"
    using r0 by (simp add: right_diff_distrib [symmetric])
  then have "new_temperature_estimate (Fin r0) (Fin (r0 * cvd_poly T)) (Fin x)
      = Fin (x - (cvd_poly x - cvd_poly T) / cvd_slope x)"
    by (simp add: new_temperature_estimate_Fin [OF nz])
  moreover have "\<bar>x - (cvd_poly x - cvd_poly T) / cvd_slope x - T\<bar> \<le> \<bar>x - T\<bar> / 2"
    by (rule step_bound [OF c])
  ultimately show ?thesis by blast
qed

lemma cvd_poly_bounds:
  assumes lo: "- 200 \<le> T" and hi: "T \<le> 850"
  shows "0.185 \<le> cvd_poly T" and "cvd_poly T \<le> 3.905"
proof -
  have "0.185 \<le> cvd_poly T \<and> cvd_poly T \<le> 3.905"
  proof (cases "0 \<le> T")
    case True
    define p1 where "p1 = T * (0.003908302087 - 0.0000005775 * T)"
    define p2 where "p2 = (850 - T) * (0.003908302087 - 0.0000005775 * (850 + T))"
    have p1: "0 \<le> p1"
      unfolding p1_def using True hi by (intro mult_nonneg_nonneg) simp_all
    have p2: "0 \<le> p2"
      unfolding p2_def using True hi by (intro mult_nonneg_nonneg) simp_all
    have e1: "cvd_poly T = 1 + p1"
      using True by (simp add: cvd_poly_def p1_def field_simps)
    have e2: "cvd_poly T = 3.90481302395 - p2"
      using True by (simp add: cvd_poly_def p2_def field_simps)
    have "0.185 \<le> cvd_poly T" using p1 by (simp add: e1)
    moreover have "cvd_poly T \<le> 3.905" using p2 by (simp add: e2)
    ultimately show ?thesis by blast
  next
    case False
    define v where "v = - T"
    have v: "0 \<le> v" "v \<le> 200" using False lo by (simp_all add: v_def)
    define w where "w = v * v"
    define q where "q = (v + 100) * (v * v * v)"
    have w: "0 \<le> w" "w \<le> 200 * 200"
      unfolding w_def using v by (simp, intro mult_mono, simp_all)
    have vvv: "0 \<le> v * v * v" "v * v * v \<le> 200 * 200 * 200"
      using v w unfolding w_def by (simp, intro mult_mono, simp_all)
    have q: "0 \<le> q" "q \<le> 300 * (200 * 200 * 200)"
      unfolding q_def using v vvv by (simp, intro mult_mono, simp_all)
    have "cvd_poly T = 1 - 0.003908302087 * v - 0.0000005775 * w
        - 0.00000000000418301 * q"
      using False by (simp add: cvd_poly_def v_def w_def q_def field_simps)
    then show ?thesis using v w q by (simp add: field_simps)
  qed
  then show "0.185 \<le> cvd_poly T" and "cvd_poly T \<le> 3.905" by blast+
qed


lemma RTD_CalculateResistance_Fin:
  assumes cls: "(sensor_type, R0) \<in> {(RTD_SENSOR_PT50, 50), (RTD_SENSOR_PT100, 100),
       (RTD_SENSOR_PT200, 200), (RTD_SENSOR_PT500, 500), (RTD_SENSOR_PT1000, 1000)}"
    and lo: "- 200.5 \<le> T" and hi: "T \<le> 850.5"
  shows "RTD_CalculateResistance sensor_type (Fin T) = Fin (R0 * cvd_poly T)"
proof -
  from resistance_at_zero_of_cases [OF cls]
  have r0: "resistance_at_zero_of sensor_type = Fin R0" and pos: "R0 \<noteq> 0" by auto
  show ?thesis using lo hi pos
    by (simp add: RTD_CalculateResistance_def r0 is_zero_def coefficient_defs minus_double_def
        cvd_poly_def Let_def mult.assoc)
qed

lemma forward_value_accepted:
  assumes cls: "(sensor_type, R0) \<in> {(RTD_SENSOR_PT50, 50), (RTD_SENSOR_PT100, 100),
       (RTD_SENSOR_PT200, 200), (RTD_SENSOR_PT500, 500), (RTD_SENSOR_PT1000, 1000)}"
    and lo: "- 200 \<le> T" and hi: "T \<le> 850"
  shows "validate_resistance sensor_type (Fin (R0 * cvd_poly T)) = (Fin R0, Fin 0)"
proof -
  note b = cvd_poly_bounds [OF lo hi]
  show ?thesis
    using cls b unfolding validate_resistance_def sensor_defs band_check_def band_literal_defs
    by (elim insertE emptyE Pair_inject; hypsubst; simp; simp add: field_simps)
qed

lemma newton_loop_converges:
  assumes lo: "- 200 \<le> T" and hi: "T \<le> 850" and r0: "0 < r0"
  shows "iteration \<le> 28 \<Longrightarrow> \<bar>x - T\<bar> \<le> 1 / 2 ^ iteration \<Longrightarrow>
     \<exists>t. newton_loop (Fin r0) (Fin (r0 * cvd_poly T)) (Fin x) iteration temperature = Fin t
         \<and> \<bar>t - T\<bar> \<le> 0.00000001"
proof (induction "28 - iteration" arbitrary: iteration x)
  case 0
  then have it: "iteration = 28" by simp
  have near: "\<bar>x - T\<bar> \<le> 1 / 2 ^ 28" using "0.prems"(2) by (simp only: it)
  then have "\<bar>x - T\<bar> \<le> 1" by simp
  from newton_step_contracts [OF lo hi this r0] obtain x' where
    new: "new_temperature_estimate (Fin r0) (Fin (r0 * cvd_poly T)) (Fin x) = Fin x'"
    and x': "\<bar>x' - T\<bar> \<le> \<bar>x - T\<bar> / 2" by blast
  have small: "\<bar>x - T\<bar> \<le> 0.000000004" using near by simp
  have conv: "\<bar>x' - x\<bar> < 0.00000001" using x' small by (simp add: abs_if split: if_splits)
  have close: "\<bar>x' - T\<bar> \<le> 0.00000001" using x' small by simp
  show ?case
    using new conv close
    by (subst newton_loop.simps)
      (simp add: it max_iterations_def tolerance_def minus_double_def Let_def)
next
  case (Suc n)
  then have it: "iteration < 28" and n: "n = 28 - (iteration + 1)" by simp_all
  have "(1::real) / 2 ^ iteration \<le> 1" by (simp add: divide_le_eq)
  with Suc.prems(2) have "\<bar>x - T\<bar> \<le> 1" by linarith
  from newton_step_contracts [OF lo hi this r0] obtain x' where
    new: "new_temperature_estimate (Fin r0) (Fin (r0 * cvd_poly T)) (Fin x) = Fin x'"
    and x': "\<bar>x' - T\<bar> \<le> \<bar>x - T\<bar> / 2" by blast
  show ?case
  proof (cases "\<bar>x' - x\<bar> < 0.00000001")
    case True
    have "\<bar>x - T\<bar> \<le> \<bar>x' - x\<bar> + \<bar>x' - T\<bar>" by linarith
    with True x' have "\<bar>x' - T\<bar> \<le> 0.00000001" by (simp add: field_simps)
    then show ?thesis
      using new True it
      by (subst newton_loop.simps)
        (simp add: max_iterations_def tolerance_def minus_double_def Let_def)
  next
    case False
    have "\<bar>x - T\<bar> / 2 \<le> (1 / 2 ^ iteration) / 2"
      using Suc.prems(2) by (intro divide_right_mono) simp_all
    with x' have "\<bar>x' - T\<bar> \<le> (1 / 2 ^ iteration) / 2" by linarith
    then have "\<bar>x' - T\<bar> \<le> 1 / 2 ^ (iteration + 1)" by simp
    from Suc.hyps(1) [OF n _ this] it
    obtain t where "newton_loop (Fin r0) (Fin (r0 * cvd_poly T)) (Fin x') (iteration + 1)
        temperature = Fin t" and "\<bar>t - T\<bar> \<le> 0.00000001" by auto
    then show ?thesis
      using new False it
      by (subst newton_loop.simps)
        (simp add: max_iterations_def tolerance_def minus_double_def Let_def)
  qed
qed

text \<open>
  Claim C2. For every recognized class and every temperature \<open>T\<close> in \<open>[-200, 850]\<close>,
  \<open>RTD_CalculateResistance\<close> does not fail, and \<open>RTD_CalculateTemperature\<close> applied to
  its result with an initial estimate within one degree of \<open>T\<close> returns a finite
  temperature within \<open>1e-6\<close> of \<open>T\<close> (the loop converges within 29 iterations, and
  the value returned is in fact within \<open>1e-8\<close>).
\<close>

theorem round_trip_within_tolerance:
  assumes cls: "recognized sensor_type"
    and lo: "- 200 \<le> T" and hi: "T \<le> 850" and guess: "\<bar>g - T\<bar> \<le> 1"
  shows "RTD_CalculateResistance sensor_type (Fin T) \<noteq> RTD_CONVERSION_FAILED \<and>
    (\<exists>t. RTD_CalculateTemperature sensor_type (RTD_CalculateResistance sensor_type (Fin T))
            (Fin g) = Fin t \<and> \<bar>t - T\<bar> < 0.000001)"
proof -
  from recognized_cases [OF cls] obtain R0 :: real where
    tab: "(sensor_type, R0) \<in> {(RTD_SENSOR_PT50, 50), (RTD_SENSOR_PT100, 100),
       (RTD_SENSOR_PT200, 200), (RTD_SENSOR_PT500, 500), (RTD_SENSOR_PT1000, 1000)}"
    by auto
  have R0: "0 < R0" using resistance_at_zero_of_cases [OF tab] by simp
  have fwd: "RTD_CalculateResistance sensor_type (Fin T) = Fin (R0 * cvd_poly T)"
    using lo hi by (intro RTD_CalculateResistance_Fin [OF tab]) simp_all
  have "0 < R0 * cvd_poly T"
    using R0 cvd_poly_bounds(1) [OF lo hi] by (intro mult_pos_pos) simp_all
  then have ok: "Fin (R0 * cvd_poly T) \<noteq> RTD_CONVERSION_FAILED"
    by (simp add: RTD_CONVERSION_FAILED_def)
  have "\<bar>g - T\<bar> \<le> 1 / 2 ^ 0" using guess by simp
  from newton_loop_converges [OF lo hi R0 _ this, of "Fin 0"]
  obtain t where "newton_loop (Fin R0) (Fin (R0 * cvd_poly T)) (Fin g) 0 (Fin 0) = Fin t"
    and "\<bar>t - T\<bar> \<le> 0.00000001" by auto
  then have "RTD_CalculateTemperature sensor_type (Fin (R0 * cvd_poly T)) (Fin g) = Fin t
      \<and> \<bar>t - T\<bar> < 0.000001"
    by (simp add: RTD_CalculateTemperature_def forward_value_accepted [OF tab lo hi] is_zero_def)
  with ok show ?thesis by (auto simp: fwd)
qed

theorem round_trip_within_tolerance_witness:
  "recognized RTD_SENSOR_PT100 \<and> \<bar>(25.5::real) - 25\<bar> \<le> 1 \<and>
   (\<exists>t. RTD_CalculateTemperature RTD_SENSOR_PT100
           (RTD_CalculateResistance RTD_SENSOR_PT100 (Fin 25)) (Fin 25.5) = Fin t
        \<and> \<bar>t - 25\<bar> < 0.000001)"
  using round_trip_within_tolerance [of RTD_SENSOR_PT100 25 "25.5"] by (simp add: recognized_def)

end
